theory Spec2Isabelle
  imports Complex_Main
begin

section \<open>Data model\<close>

text \<open>
  Exceptions are values. \<open>NotImplementedError\<close> is the one exception the module raises
  itself; \<open>CollaboratorError\<close> stands for any exception raised inside a collaborator
  (\<open>Sample.gradient\<close>, \<open>numpy.average\<close>), which the module never catches.
\<close>

datatype exn = NotImplementedError string | CollaboratorError string

text \<open>
  Modelled from the spec: the class \<open>Sample\<close> of \<open>pygarl.base\<close> is imported by the module
  but defined elsewhere. A sample is an ordered sequence of data rows (one row per time
  step, of a row type fixed for the session) plus a gesture identifier, an opaque label
  that may be absent (the type \<open>'gid\<close> holds the absent label as well). Building a sample
  from \<open>(data, gesture_id)\<close> is record construction. On row sequences
  \<open>numpy.concatenate\<close> along the first axis is list append.
\<close>

record ('row, 'gid) sample =
  data :: "'row list"
  gesture_id :: "'gid"

text \<open>
  The two numeric collaborators are parameters of the model: \<open>gradient\<close> is the method
  \<open>Sample.gradient\<close>, \<open>np_average\<close> is \<open>numpy.average\<close>. Either may raise. The mean is
  taken as a real number, so that a sample is either at least the threshold or strictly
  below it; a mean that is not a number is not represented.
\<close>

record ('row, 'gid, 'grad) collaborators =
  gradient :: "('row, 'gid) sample \<Rightarrow> exn + 'grad"
  np_average :: "'grad \<Rightarrow> exn + real"

text \<open>The attributes of a \<open>GradientThresholdMiddleware\<close> object, as \<open>__init__\<close> sets them.\<close>

record 'row gtm =
  threshold :: real
  verbose :: bool
  group :: bool
  sample_group_delay :: int
  buffer :: "'row list option"
  sample_group_delay_counter :: int

text \<open>What the verbose mode prints to standard output.\<close>

datatype printed = GTM_Average real | GTM_Suppressed_sample_to_be_grouped

text \<open>The only attribute of a \<open>DelayGrouperMiddleware\<close> object.\<close>

record delay_grouper =
  delay :: int

section \<open>GradientThresholdMiddleware\<close>

text \<open>The constructor, with the arguments in the order of the source.\<close>

definition GradientThresholdMiddleware :: "real \<Rightarrow> bool \<Rightarrow> int \<Rightarrow> bool \<Rightarrow> 'row gtm" where
  "GradientThresholdMiddleware threshold' group' sample_group_delay' verbose' =
     \<lparr>threshold = threshold', verbose = verbose', group = group',
      sample_group_delay = sample_group_delay', buffer = None,
      sample_group_delay_counter = 0\<rparr>"

definition add_sample_to_buffer :: "'row gtm \<Rightarrow> ('row, 'gid) sample \<Rightarrow> 'row gtm" where
  "add_sample_to_buffer self smp =
     (let sample_data = data smp
      in case buffer self of
           None \<Rightarrow> self\<lparr>buffer := Some sample_data\<rparr>
         | Some b \<Rightarrow> self\<lparr>buffer := Some (b @ sample_data)\<rparr>)"

definition delete_buffer :: "'row gtm \<Rightarrow> 'row gtm" where
  "delete_buffer self = self\<lparr>buffer := None\<rparr>"

text \<open>
  The first three statements of \<open>process_sample\<close>: the gradient of the sample, its
  average, and the absolute value of that. An exception of a collaborator propagates.
\<close>

definition magnitude :: "('row, 'gid, 'grad) collaborators \<Rightarrow> ('row, 'gid) sample \<Rightarrow> exn + real" where
  "magnitude env smp =
     (case gradient env smp of
        Inl e \<Rightarrow> Inl e
      | Inr g \<Rightarrow>
          (case np_average env g of
             Inl e \<Rightarrow> Inl e
           | Inr average \<Rightarrow> Inr \<bar>average\<bar>))"

text \<open>
  One call of \<open>process_sample\<close>. The result is the object after the call, the lines
  printed, and either the exception raised or the value returned (\<open>None\<close> for Python's
  \<open>None\<close>). An exception of a collaborator is raised before any attribute is written.
\<close>

definition process_sample ::
  "('row, 'gid, 'grad) collaborators \<Rightarrow> 'row gtm \<Rightarrow> ('row, 'gid) sample
     \<Rightarrow> 'row gtm \<times> printed list \<times> (exn + ('row, 'gid) sample option)" where
  "process_sample env self smp =
     (case magnitude env smp of
        Inl e \<Rightarrow> (self, [], Inl e)
      | Inr average \<Rightarrow>
          (let out1 = (if verbose self then [GTM_Average average] else []);
               (is_allowed_to_pass, self1) =
                  (if average \<ge> threshold self
                   then (True, self\<lparr>sample_group_delay_counter := 0\<rparr>)
                   else if group self \<and> sample_group_delay_counter self < sample_group_delay self
                   then (True, self\<lparr>sample_group_delay_counter := sample_group_delay_counter self + 1\<rparr>)
                   else (False, self))
           in if is_allowed_to_pass then
                (if \<not> group self1 then (self1, out1, Inr (Some smp))
                 else (add_sample_to_buffer self1 smp,
                       out1 @ (if verbose self1 then [GTM_Suppressed_sample_to_be_grouped] else []),
                       Inr None))
              else
                (if \<not> group self1 then (self1, out1, Inr None)
                 else (case buffer self1 of
                         Some grouped_data \<Rightarrow>
                           (delete_buffer self1, out1,
                            Inr (Some \<lparr>data = grouped_data, gesture_id = gesture_id smp\<rparr>))
                       | None \<Rightarrow> (self1, out1, Inr None)))))"

text \<open>
  Successive calls of \<open>process_sample\<close> on one object, one per sample of a stream, as a
  pipeline driver makes them: the object after the last call, everything printed, and
  the outcome of each call in order.
\<close>

fun process_all ::
  "('row, 'gid, 'grad) collaborators \<Rightarrow> 'row gtm \<Rightarrow> ('row, 'gid) sample list
     \<Rightarrow> 'row gtm \<times> printed list \<times> (exn + ('row, 'gid) sample option) list" where
  "process_all env self [] = (self, [], [])"
| "process_all env self (smp # rest) =
     (let (self1, out1, r) = process_sample env self smp;
          (self2, out2, rs) = process_all env self1 rest
      in (self2, out1 @ out2, r # rs))"

definition state_after ::
  "('row, 'gid, 'grad) collaborators \<Rightarrow> 'row gtm \<Rightarrow> ('row, 'gid) sample list \<Rightarrow> 'row gtm" where
  "state_after env self smps = fst (process_all env self smps)"

definition outcomes ::
  "('row, 'gid, 'grad) collaborators \<Rightarrow> 'row gtm \<Rightarrow> ('row, 'gid) sample list
     \<Rightarrow> (exn + ('row, 'gid) sample option) list" where
  "outcomes env self smps = snd (snd (process_all env self smps))"

section \<open>DelayGrouperMiddleware\<close>

definition DelayGrouperMiddleware :: "int \<Rightarrow> delay_grouper" where
  "DelayGrouperMiddleware delay' = \<lparr>delay = delay'\<rparr>"

definition delay_grouper_process_sample ::
  "delay_grouper \<Rightarrow> ('row, 'gid) sample \<Rightarrow> delay_grouper \<times> (exn + ('row, 'gid) sample option)" where
  "delay_grouper_process_sample self smp =
     (self, Inl (NotImplementedError ''DelayGrouperMiddleware is not implemented yet''))"

section \<open>Vocabulary of the properties\<close>

text \<open>
  A sample crosses the threshold when its magnitude is computed and is at least the
  threshold; it is below when its magnitude is computed and is strictly less.
\<close>

definition crosses :: "('row, 'gid, 'grad) collaborators \<Rightarrow> real \<Rightarrow> ('row, 'gid) sample \<Rightarrow> bool" where
  "crosses env t smp = (case magnitude env smp of Inl e \<Rightarrow> False | Inr a \<Rightarrow> t \<le> a)"

definition below :: "('row, 'gid, 'grad) collaborators \<Rightarrow> real \<Rightarrow> ('row, 'gid) sample \<Rightarrow> bool" where
  "below env t smp = (case magnitude env smp of Inl e \<Rightarrow> False | Inr a \<Rightarrow> a < t)"




section \<open>A concrete stream\<close>

text \<open>
  Stand-ins for the collaborators, used to run the model on concrete samples: data rows
  are single readings, the gradient is the sequence of successive differences (it fails
  on fewer than two rows, as \<open>numpy.gradient\<close> does), the average is the arithmetic mean.
\<close>

fun diffs :: "real list \<Rightarrow> real list" where
  "diffs (x # y # zs) = (y - x) # diffs (y # zs)"
| "diffs _ = []"

definition example_env :: "(real, nat, real list) collaborators" where
  "example_env =
     \<lparr>gradient = (\<lambda>smp. if length (data smp) < 2
                          then Inl (CollaboratorError ''gradient'')
                          else Inr (diffs (data smp))),
      np_average = (\<lambda>g. if g = [] then Inl (CollaboratorError ''average'')
                         else Inr (sum_list g / real (length g)))\<rparr>"

text \<open>
  The scenario of the specification: threshold 10, grouping, two tolerated samples;
  magnitudes 15, 3, 4, 2 with gesture identifiers 1, 1, 1, 2.
\<close>

definition d1 :: "(real, nat) sample" where
  "d1 = \<lparr>data = [0, 15], gesture_id = 1\<rparr>"
definition d2 :: "(real, nat) sample" where
  "d2 = \<lparr>data = [0, 3], gesture_id = 1\<rparr>"
definition d3 :: "(real, nat) sample" where
  "d3 = \<lparr>data = [4, 0], gesture_id = 1\<rparr>"
definition d4 :: "(real, nat) sample" where
  "d4 = \<lparr>data = [0, 2], gesture_id = 2\<rparr>"

text \<open>The object of the scenario after its first three calls.\<close>

definition after_three :: "real gtm" where
  "after_three =
     \<lparr>threshold = 10, verbose = False, group = True, sample_group_delay = 2,
      buffer = Some [0, 15, 0, 3, 4, 0], sample_group_delay_counter = 2\<rparr>"

section \<open>Concatenation that may raise\<close>

text \<open>
  The definitions above take the rows of one stream to have one shape, where
  \<open>numpy.concatenate\<close> is append. In general \<open>numpy.concatenate\<close> is a third collaborator
  that may raise: it raises \<open>ValueError\<close> when the dimensions of the two arrays beyond
  the first axis differ. \<open>add_sample_to_buffer_np\<close> and \<open>process_sample_np\<close> are
  \<open>add_sample_to_buffer\<close> and \<open>process_sample\<close> with the concatenation as a parameter. The
  exception propagates out of \<open>process_sample\<close> after the counter has been written and
  before the buffer is, and before the second line is printed.
\<close>

definition add_sample_to_buffer_np ::
  "('row list \<Rightarrow> 'row list \<Rightarrow> exn + 'row list) \<Rightarrow> 'row gtm \<Rightarrow> ('row, 'gid) sample
     \<Rightarrow> exn + 'row gtm" where
  "add_sample_to_buffer_np np_concatenate self smp =
     (let sample_data = data smp
      in case buffer self of
           None \<Rightarrow> Inr (self\<lparr>buffer := Some sample_data\<rparr>)
         | Some b \<Rightarrow>
             (case np_concatenate b sample_data of
                Inl e \<Rightarrow> Inl e
              | Inr c \<Rightarrow> Inr (self\<lparr>buffer := Some c\<rparr>)))"

definition process_sample_np ::
  "('row list \<Rightarrow> 'row list \<Rightarrow> exn + 'row list) \<Rightarrow> ('row, 'gid, 'grad) collaborators
     \<Rightarrow> 'row gtm \<Rightarrow> ('row, 'gid) sample
     \<Rightarrow> 'row gtm \<times> printed list \<times> (exn + ('row, 'gid) sample option)" where
  "process_sample_np np_concatenate env self smp =
     (case magnitude env smp of
        Inl e \<Rightarrow> (self, [], Inl e)
      | Inr average \<Rightarrow>
          (let out1 = (if verbose self then [GTM_Average average] else []);
               (is_allowed_to_pass, self1) =
                  (if average \<ge> threshold self
                   then (True, self\<lparr>sample_group_delay_counter := 0\<rparr>)
                   else if group self \<and> sample_group_delay_counter self < sample_group_delay self
                   then (True, self\<lparr>sample_group_delay_counter := sample_group_delay_counter self + 1\<rparr>)
                   else (False, self))
           in if is_allowed_to_pass then
                (if \<not> group self1 then (self1, out1, Inr (Some smp))
                 else (case add_sample_to_buffer_np np_concatenate self1 smp of
                         Inl e \<Rightarrow> (self1, out1, Inl e)
                       | Inr self2 \<Rightarrow>
                           (self2,
                            out1 @ (if verbose self2 then [GTM_Suppressed_sample_to_be_grouped] else []),
                            Inr None)))
              else
                (if \<not> group self1 then (self1, out1, Inr None)
                 else (case buffer self1 of
                         Some grouped_data \<Rightarrow>
                           (delete_buffer self1, out1,
                            Inr (Some \<lparr>data = grouped_data, gesture_id = gesture_id smp\<rparr>))
                       | None \<Rightarrow> (self1, out1, Inr None)))))"









section \<open>One call\<close>

lemma example_magnitudes:
  "magnitude example_env d1 = Inr 15" "magnitude example_env d2 = Inr 3"
  "magnitude example_env d3 = Inr 4" "magnitude example_env d4 = Inr 2"
  by (simp_all add: magnitude_def example_env_def d1_def d2_def d3_def d4_def)

lemma init_fields:
  "threshold (GradientThresholdMiddleware t g l v) = t"
  "verbose (GradientThresholdMiddleware t g l v) = v"
  "group (GradientThresholdMiddleware t g l v) = g"
  "sample_group_delay (GradientThresholdMiddleware t g l v) = l"
  "buffer (GradientThresholdMiddleware t g l v) = None"
  "sample_group_delay_counter (GradientThresholdMiddleware t g l v) = 0"
  by (simp_all add: GradientThresholdMiddleware_def)

lemma process_sample_raises:
  "magnitude env smp = Inl e \<Longrightarrow> process_sample env self smp = (self, [], Inl e)"
  by (simp add: process_sample_def)

lemma state_step:
  "magnitude env smp = Inr a \<Longrightarrow>
   fst (process_sample env self smp) =
     (if threshold self \<le> a then
        (if group self then add_sample_to_buffer (self\<lparr>sample_group_delay_counter := 0\<rparr>) smp
         else self\<lparr>sample_group_delay_counter := 0\<rparr>)
      else if group self \<and> sample_group_delay_counter self < sample_group_delay self then
        add_sample_to_buffer (self\<lparr>sample_group_delay_counter := sample_group_delay_counter self + 1\<rparr>) smp
      else if group self \<and> buffer self \<noteq> None then delete_buffer self
      else self)"
  by (auto simp add: process_sample_def Let_def split: option.splits)

lemma result_step:
  "magnitude env smp = Inr a \<Longrightarrow>
   snd (snd (process_sample env self smp)) =
     (if threshold self \<le> a then (if group self then Inr None else Inr (Some smp))
      else if group self \<and> sample_group_delay_counter self < sample_group_delay self then Inr None
      else if group self then
        (case buffer self of
           None \<Rightarrow> Inr None
         | Some b \<Rightarrow> Inr (Some \<lparr>data = b, gesture_id = gesture_id smp\<rparr>))
      else Inr None)"
  by (auto simp add: process_sample_def Let_def split: option.splits)

lemma buffer_add_sample:
  "buffer (add_sample_to_buffer self smp) =
     Some ((case buffer self of None \<Rightarrow> [] | Some b \<Rightarrow> b) @ data smp)"
  by (simp add: add_sample_to_buffer_def Let_def split: option.splits)

lemma add_sample_fields:
  "threshold (add_sample_to_buffer self smp) = threshold self"
  "verbose (add_sample_to_buffer self smp) = verbose self"
  "group (add_sample_to_buffer self smp) = group self"
  "sample_group_delay (add_sample_to_buffer self smp) = sample_group_delay self"
  "sample_group_delay_counter (add_sample_to_buffer self smp) = sample_group_delay_counter self"
  by (simp_all add: add_sample_to_buffer_def Let_def split: option.splits)

lemma delete_buffer_fields:
  "buffer (delete_buffer self) = None"
  "threshold (delete_buffer self) = threshold self"
  "verbose (delete_buffer self) = verbose self"
  "group (delete_buffer self) = group self"
  "sample_group_delay (delete_buffer self) = sample_group_delay self"
  "sample_group_delay_counter (delete_buffer self) = sample_group_delay_counter self"
  by (simp_all add: delete_buffer_def)

lemma config_step:
  "threshold (fst (process_sample env self smp)) = threshold self"
  "verbose (fst (process_sample env self smp)) = verbose self"
  "group (fst (process_sample env self smp)) = group self"
  "sample_group_delay (fst (process_sample env self smp)) = sample_group_delay self"
proof -
  show "threshold (fst (process_sample env self smp)) = threshold self"
    by (cases "magnitude env smp")
       (simp_all add: process_sample_raises state_step add_sample_fields delete_buffer_fields)
  show "verbose (fst (process_sample env self smp)) = verbose self"
    by (cases "magnitude env smp")
       (simp_all add: process_sample_raises state_step add_sample_fields delete_buffer_fields)
  show "group (fst (process_sample env self smp)) = group self"
    by (cases "magnitude env smp")
       (simp_all add: process_sample_raises state_step add_sample_fields delete_buffer_fields)
  show "sample_group_delay (fst (process_sample env self smp)) = sample_group_delay self"
    by (cases "magnitude env smp")
       (simp_all add: process_sample_raises state_step add_sample_fields delete_buffer_fields)
qed

lemma ungrouped_buffer_step:
  "\<not> group self \<Longrightarrow> buffer (fst (process_sample env self smp)) = buffer self"
  by (cases "magnitude env smp") (simp_all add: process_sample_raises state_step)

lemma counter_bounds_step:
  assumes "0 \<le> sample_group_delay_counter self"
    and "sample_group_delay_counter self \<le> max 0 (sample_group_delay self)"
  shows "0 \<le> sample_group_delay_counter (fst (process_sample env self smp))
         \<and> sample_group_delay_counter (fst (process_sample env self smp)) \<le> max 0 (sample_group_delay self)"
  using assms
  by (cases "magnitude env smp")
     (simp_all add: process_sample_raises state_step add_sample_fields delete_buffer_fields)

lemma counter_step:
  "sample_group_delay_counter (fst (process_sample env self smp)) =
     (if crosses env (threshold self) smp then 0
      else if below env (threshold self) smp \<and> group self
              \<and> sample_group_delay_counter self < sample_group_delay self
      then sample_group_delay_counter self + 1
      else sample_group_delay_counter self)"
  by (cases "magnitude env smp")
     (auto simp add: process_sample_raises state_step add_sample_fields delete_buffer_fields
        crosses_def below_def)

section \<open>A stream of calls\<close>

lemma state_after_Nil: "state_after env self [] = self"
  by (simp add: state_after_def)

lemma state_after_Cons:
  "state_after env self (smp # rest) = state_after env (fst (process_sample env self smp)) rest"
  by (simp add: state_after_def split: prod.splits)

lemma outcomes_Nil: "outcomes env self [] = []"
  by (simp add: outcomes_def)

lemma outcomes_Cons:
  "outcomes env self (smp # rest) =
     snd (snd (process_sample env self smp)) # outcomes env (fst (process_sample env self smp)) rest"
  by (simp add: outcomes_def split: prod.splits)

lemma state_after_append:
  "state_after env self (xs @ ys) = state_after env (state_after env self xs) ys"
  by (induction xs arbitrary: self) (simp_all add: state_after_Nil state_after_Cons)

lemma outcomes_append:
  "outcomes env self (xs @ ys) = outcomes env self xs @ outcomes env (state_after env self xs) ys"
  by (induction xs arbitrary: self) (simp_all add: state_after_Nil state_after_Cons outcomes_Nil outcomes_Cons)

lemma length_outcomes: "length (outcomes env self smps) = length smps"
  by (induction smps arbitrary: self) (simp_all add: outcomes_Nil outcomes_Cons)

lemma config_state_after:
  "threshold (state_after env self smps) = threshold self"
  "verbose (state_after env self smps) = verbose self"
  "group (state_after env self smps) = group self"
  "sample_group_delay (state_after env self smps) = sample_group_delay self"
  by (induction smps arbitrary: self) (simp_all add: state_after_Nil state_after_Cons config_step)

lemma counter_bounds_run:
  assumes "0 \<le> sample_group_delay_counter self"
    and "sample_group_delay_counter self \<le> max 0 (sample_group_delay self)"
  shows "0 \<le> sample_group_delay_counter (state_after env self smps)
         \<and> sample_group_delay_counter (state_after env self smps) \<le> max 0 (sample_group_delay self)"
  using assms
proof (induction smps arbitrary: self)
  case Nil
  then show ?case by (simp add: state_after_Nil)
next
  case (Cons smp rest)
  let ?s1 = "fst (process_sample env self smp)"
  have "0 \<le> sample_group_delay_counter ?s1
        \<and> sample_group_delay_counter ?s1 \<le> max 0 (sample_group_delay ?s1)"
    using counter_bounds_step [OF Cons.prems] by (simp add: config_step)
  then have "0 \<le> sample_group_delay_counter (state_after env ?s1 rest)
             \<and> sample_group_delay_counter (state_after env ?s1 rest) \<le> max 0 (sample_group_delay ?s1)"
    using Cons.IH [of ?s1] by simp
  then show ?case by (simp add: state_after_Cons config_step)
qed

text \<open>A run of samples that all cross the threshold, with grouping.\<close>

lemma crossing_run:
  assumes "group self" and "\<forall>smp \<in> set smps. crosses env (threshold self) smp" and "smps \<noteq> []"
  shows "buffer (state_after env self smps) =
           Some ((case buffer self of None \<Rightarrow> [] | Some b \<Rightarrow> b) @ concat (map data smps))
         \<and> sample_group_delay_counter (state_after env self smps) = 0
         \<and> outcomes env self smps = replicate (length smps) (Inr None)"
  using assms
proof (induction smps arbitrary: self)
  case Nil
  then show ?case by simp
next
  case (Cons smp rest)
  from Cons.prems obtain a where a: "magnitude env smp = Inr a" "threshold self \<le> a"
    by (auto simp add: crosses_def split: sum.splits)
  let ?s1 = "fst (process_sample env self smp)"
  have s1: "?s1 = add_sample_to_buffer (self\<lparr>sample_group_delay_counter := 0\<rparr>) smp"
    using a Cons.prems(1) by (simp add: state_step)
  have r1: "snd (snd (process_sample env self smp)) = Inr None"
    using a Cons.prems(1) by (simp add: result_step)
  have b1: "buffer ?s1 = Some ((case buffer self of None \<Rightarrow> [] | Some b \<Rightarrow> b) @ data smp)"
    by (simp add: s1 buffer_add_sample)
  have c1: "sample_group_delay_counter ?s1 = 0"
    by (simp add: s1 add_sample_fields)
  show ?case
  proof (cases "rest = []")
    case True
    then show ?thesis
      by (simp add: state_after_Cons state_after_Nil outcomes_Cons outcomes_Nil b1 c1 r1)
  next
    case False
    have g1: "group ?s1" using Cons.prems(1) by (simp add: config_step)
    have t1: "\<forall>x \<in> set rest. crosses env (threshold ?s1) x"
      using Cons.prems(2) by (simp add: config_step)
    from Cons.IH [OF g1 t1 False] show ?thesis
      by (simp add: state_after_Cons outcomes_Cons b1 r1)
  qed
qed

text \<open>A run of samples below the threshold that the counter still tolerates, with grouping.\<close>

lemma tolerated_run:
  assumes "group self" and "\<forall>smp \<in> set smps. below env (threshold self) smp"
    and "sample_group_delay_counter self + int (length smps) \<le> sample_group_delay self"
    and "smps \<noteq> []"
  shows "buffer (state_after env self smps) =
           Some ((case buffer self of None \<Rightarrow> [] | Some b \<Rightarrow> b) @ concat (map data smps))
         \<and> sample_group_delay_counter (state_after env self smps) =
             sample_group_delay_counter self + int (length smps)
         \<and> outcomes env self smps = replicate (length smps) (Inr None)"
  using assms
proof (induction smps arbitrary: self)
  case Nil
  then show ?case by simp
next
  case (Cons smp rest)
  from Cons.prems obtain a where a: "magnitude env smp = Inr a" "a < threshold self"
    by (auto simp add: below_def split: sum.splits)
  have lt: "sample_group_delay_counter self < sample_group_delay self"
    using Cons.prems(3) by simp
  let ?s1 = "fst (process_sample env self smp)"
  have s1: "?s1 = add_sample_to_buffer
                    (self\<lparr>sample_group_delay_counter := sample_group_delay_counter self + 1\<rparr>) smp"
    using a lt Cons.prems(1) by (simp add: state_step)
  have r1: "snd (snd (process_sample env self smp)) = Inr None"
    using a lt Cons.prems(1) by (simp add: result_step)
  have b1: "buffer ?s1 = Some ((case buffer self of None \<Rightarrow> [] | Some b \<Rightarrow> b) @ data smp)"
    by (simp add: s1 buffer_add_sample)
  have c1: "sample_group_delay_counter ?s1 = sample_group_delay_counter self + 1"
    by (simp add: s1 add_sample_fields)
  show ?case
  proof (cases "rest = []")
    case True
    then show ?thesis
      by (simp add: state_after_Cons state_after_Nil outcomes_Cons outcomes_Nil b1 c1 r1)
  next
    case False
    have g1: "group ?s1" using Cons.prems(1) by (simp add: config_step)
    have t1: "\<forall>x \<in> set rest. below env (threshold ?s1) x"
      using Cons.prems(2) by (simp add: config_step)
    have k1: "sample_group_delay_counter ?s1 + int (length rest) \<le> sample_group_delay ?s1"
      using Cons.prems(3) by (simp add: c1 config_step)
    from Cons.IH [OF g1 t1 k1 False] show ?thesis
      by (simp add: state_after_Cons outcomes_Cons b1 c1 r1)
  qed
qed

section \<open>The concrete stream\<close>

lemma example_samples:
  "data d1 = [0, 15]" "data d2 = [0, 3]" "data d3 = [4, 0]" "data d4 = [0, 2]"
  "gesture_id d1 = 1" "gesture_id d2 = 1" "gesture_id d3 = 1" "gesture_id d4 = 2"
  by (simp_all add: d1_def d2_def d3_def d4_def)

lemma example_classes:
  "crosses example_env 10 d1" "below example_env 10 d2"
  "below example_env 10 d3" "below example_env 10 d4"
  by (simp_all add: crosses_def below_def example_magnitudes)

lemmas example_steps =
  state_step [OF example_magnitudes(1)] state_step [OF example_magnitudes(2)]
  state_step [OF example_magnitudes(3)] state_step [OF example_magnitudes(4)]
  result_step [OF example_magnitudes(1)] result_step [OF example_magnitudes(2)]
  result_step [OF example_magnitudes(3)] result_step [OF example_magnitudes(4)]

lemmas run_simps =
  state_after_Nil state_after_Cons outcomes_Nil outcomes_Cons example_steps example_samples
  GradientThresholdMiddleware_def add_sample_to_buffer_def delete_buffer_def Let_def

lemma scenario_after_three:
  "state_after example_env (GradientThresholdMiddleware 10 True 2 False) [d1, d2, d3] = after_three"
  by (simp add: run_simps after_three_def)

lemma scenario_outcomes:
  "outcomes example_env (GradientThresholdMiddleware 10 True 2 False) [d1, d2, d3, d4] =
     [Inr None, Inr None, Inr None,
      Inr (Some \<lparr>data = [0, 15, 0, 3, 4, 0], gesture_id = 2\<rparr>)]"
  by (simp add: run_simps)

section \<open>One call with a concatenation that may raise\<close>



lemma process_sample_np_raises:
  "magnitude env smp = Inl e \<Longrightarrow> process_sample_np cat env self smp = (self, [], Inl e)"
  by (simp add: process_sample_np_def)

text \<open>Where concatenation is append, the two models of a call agree.\<close>

lemma process_sample_np_append:
  assumes "\<And>b. buffer self = Some b \<Longrightarrow> cat b (data smp) = Inr (b @ data smp)"
  shows "process_sample_np cat env self smp = process_sample env self smp"
  using assms
  by (cases "magnitude env smp")
     (auto simp add: process_sample_np_def process_sample_def add_sample_to_buffer_np_def
        add_sample_to_buffer_def Let_def split: option.splits)





section \<open>Claims\<close>

text \<open>
  C1. A filter in its initial state, with grouping enabled, threshold \<open>t\<close> and a
  tolerance limit equal to the number of samples in \<open>ls\<close>: a stream of at least one
  sample crossing the threshold (\<open>hs\<close>), then the samples \<open>ls\<close> below it, then one more
  sample below it. Every call but the last returns nothing; the last returns one sample
  whose data is the concatenation, in arrival order, of the data of all samples of
  \<open>hs\<close> and \<open>ls\<close>, with the gesture identifier of the last sample.
\<close>

theorem grouped_episode:
  assumes "hs \<noteq> []"
    and "\<forall>smp \<in> set hs. crosses env t smp"
    and "\<forall>smp \<in> set ls. below env t smp"
    and "below env t last_smp"
  shows "outcomes env (GradientThresholdMiddleware t True (int (length ls)) v) (hs @ ls @ [last_smp]) =
           replicate (length hs + length ls) (Inr None) @
           [Inr (Some \<lparr>data = concat (map data (hs @ ls)), gesture_id = gesture_id last_smp\<rparr>)]"
proof -
  let ?init = "GradientThresholdMiddleware t True (int (length ls)) v :: 'a gtm"
  let ?mid = "state_after env ?init hs"
  let ?fin = "state_after env ?mid ls"
  have h: "buffer ?mid = Some (concat (map data hs))"
          "sample_group_delay_counter ?mid = 0"
          "outcomes env ?init hs = replicate (length hs) (Inr None)"
    using crossing_run [of ?init hs env] assms(1,2) by (simp_all add: init_fields)
  have cfg1: "group ?mid" "threshold ?mid = t" "sample_group_delay ?mid = int (length ls)"
    by (simp_all add: config_state_after init_fields)
  have l: "buffer ?fin = Some (concat (map data hs) @ concat (map data ls))
           \<and> sample_group_delay_counter ?fin = int (length ls)
           \<and> outcomes env ?mid ls = replicate (length ls) (Inr None)"
  proof (cases "ls = []")
    case True
    with h show ?thesis by (simp add: state_after_Nil outcomes_Nil)
  next
    case False
    then show ?thesis
      using tolerated_run [of ?mid ls env] assms(3) cfg1 h by simp
  qed
  have cfg2: "group ?fin" "threshold ?fin = t" "sample_group_delay ?fin = int (length ls)"
    by (simp_all add: config_state_after init_fields)
  from assms(4) obtain a where a: "magnitude env last_smp = Inr a" "a < t"
    by (auto simp add: below_def split: sum.splits)
  have f: "snd (snd (process_sample env ?fin last_smp)) =
             Inr (Some \<lparr>data = concat (map data hs) @ concat (map data ls),
                        gesture_id = gesture_id last_smp\<rparr>)"
    using a cfg2 l by (simp add: result_step)
  have "outcomes env ?init (hs @ ls @ [last_smp]) =
          outcomes env ?init hs @ outcomes env ?mid ls @ outcomes env ?fin [last_smp]"
    by (simp add: outcomes_append state_after_append)
  also have "\<dots> = replicate (length hs) (Inr None) @ replicate (length ls) (Inr None) @
                   [Inr (Some \<lparr>data = concat (map data hs) @ concat (map data ls),
                              gesture_id = gesture_id last_smp\<rparr>)]"
    using h(3) l f by (simp add: outcomes_Cons outcomes_Nil)
  finally show ?thesis by (simp add: replicate_add)
qed

text \<open>
  C1, on the scenario of the specification: the fourth call returns the rows of the
  first three samples under the gesture identifier of the fourth.
\<close>

theorem grouped_episode_witness:
  "[d1] \<noteq> [] \<and> crosses example_env 10 d1
   \<and> below example_env 10 d2 \<and> below example_env 10 d3 \<and> below example_env 10 d4
   \<and> outcomes example_env (GradientThresholdMiddleware 10 True 2 False) [d1, d2, d3, d4] =
       [Inr None, Inr None, Inr None,
        Inr (Some \<lparr>data = [0, 15, 0, 3, 4, 0], gesture_id = 2\<rparr>)]"
  using grouped_episode [of "[d1]" example_env 10 "[d2, d3]" d4 False]
  by (simp add: example_classes example_samples numeral_eq_Suc)

text \<open>
  C2 as stated fails. With threshold 10 and tolerance limit 2, three samples of
  magnitudes 3, 4 and 2 from the initial state: the first call already creates the
  buffer, and the third call returns a grouped sample made of the first two.
\<close>

theorem below_threshold_stream_counterexample:
  "below example_env 10 d2 \<and> below example_env 10 d3 \<and> below example_env 10 d4
   \<and> buffer (state_after example_env (GradientThresholdMiddleware 10 True 2 False) [d2]) = Some [0, 3]
   \<and> outcomes example_env (GradientThresholdMiddleware 10 True 2 False) [d2, d3, d4] =
       [Inr None, Inr None, Inr (Some \<lparr>data = [0, 3, 4, 0], gesture_id = 2\<rparr>)]"
  by (simp add: example_classes run_simps)

text \<open>
  C2, amended. With grouping enabled, the buffer absent and the tolerance counter not
  below the tolerance limit (the initial state when the limit is 0, and the state after
  every flush), a stream of samples all strictly below the threshold gets nothing from
  every call, and the buffer is absent after every call.
\<close>

theorem quiet_when_exhausted:
  assumes "group self" and "buffer self = None"
    and "\<not> sample_group_delay_counter self < sample_group_delay self"
    and "\<forall>smp \<in> set smps. below env (threshold self) smp"
  shows "outcomes env self smps = replicate (length smps) (Inr None)
         \<and> (\<forall>n. buffer (state_after env self (take n smps)) = None)"
proof -
  have run: "state_after env self xs = self \<and> outcomes env self xs = replicate (length xs) (Inr None)"
    if "\<forall>smp \<in> set xs. below env (threshold self) smp" for xs
    using that
  proof (induction xs)
    case Nil
    then show ?case by (simp add: state_after_Nil outcomes_Nil)
  next
    case (Cons smp rest)
    from Cons.prems obtain a where a: "magnitude env smp = Inr a" "a < threshold self"
      by (auto simp add: below_def split: sum.splits)
    have "fst (process_sample env self smp) = self"
      using a assms(1,2,3) by (simp add: state_step)
    moreover have "snd (snd (process_sample env self smp)) = Inr None"
      using a assms(1,2,3) by (simp add: result_step)
    ultimately show ?case
      using Cons by (simp add: state_after_Cons outcomes_Cons)
  qed
  have "\<forall>smp \<in> set (take n smps). below env (threshold self) smp" for n
    using assms(4) by (meson in_set_takeD)
  then have "buffer (state_after env self (take n smps)) = None" for n
    using run [of "take n smps"] assms(2) by simp
  then show ?thesis using run [OF assms(4)] by simp
qed

text \<open>
  C2, amended, on the initial state with tolerance limit 0.
\<close>

theorem quiet_when_exhausted_witness:
  "group (GradientThresholdMiddleware 10 True 0 False :: real gtm)
   \<and> buffer (GradientThresholdMiddleware 10 True 0 False :: real gtm) = None
   \<and> \<not> sample_group_delay_counter (GradientThresholdMiddleware 10 True 0 False :: real gtm)
        < sample_group_delay (GradientThresholdMiddleware 10 True 0 False :: real gtm)
   \<and> below example_env 10 d2 \<and> below example_env 10 d3 \<and> below example_env 10 d4
   \<and> outcomes example_env (GradientThresholdMiddleware 10 True 0 False) [d2, d3, d4] =
       [Inr None, Inr None, Inr None]
   \<and> (\<forall>n. buffer (state_after example_env (GradientThresholdMiddleware 10 True 0 False)
                    (take n [d2, d3, d4])) = None)"
  using quiet_when_exhausted [of "GradientThresholdMiddleware 10 True 0 False" "[d2, d3, d4]" example_env]
  by (simp add: example_classes init_fields numeral_eq_Suc)

text \<open>
  C3 as stated fails. In the scenario of the specification the fourth call flushes,
  and the tolerance counter is 2 after it, not 0.
\<close>

theorem flush_counter_counterexample:
  "snd (snd (process_sample example_env after_three d4)) =
     Inr (Some \<lparr>data = [0, 15, 0, 3, 4, 0], gesture_id = 2\<rparr>)
   \<and> sample_group_delay_counter (fst (process_sample example_env after_three d4)) = 2
   \<and> state_after example_env (GradientThresholdMiddleware 10 True 2 False) [d1, d2, d3] = after_three"
  by (simp add: scenario_after_three) (simp add: run_simps after_three_def)

text \<open>
  C3, amended. After a call that flushes (grouping enabled, a sample returned) the
  buffer is absent, and the tolerance counter is what it was before the call, not below
  the tolerance limit. A sample crossing the threshold that is processed next is
  buffered on its own, not merged with the rows flushed.
\<close>

theorem flush_clears_buffer_keeps_counter:
  assumes "group self"
    and "snd (snd (process_sample env self smp)) = Inr (Some r)"
  shows "buffer (fst (process_sample env self smp)) = None
         \<and> sample_group_delay_counter (fst (process_sample env self smp)) = sample_group_delay_counter self
         \<and> sample_group_delay self \<le> sample_group_delay_counter self
         \<and> (crosses env (threshold self) nxt \<longrightarrow>
              buffer (fst (process_sample env (fst (process_sample env self smp)) nxt)) = Some (data nxt))"
proof (cases "magnitude env smp")
  case (Inl e)
  with assms(2) show ?thesis by (simp add: process_sample_raises)
next
  case (Inr a)
  let ?s1 = "fst (process_sample env self smp)"
  from Inr assms have c: "\<not> threshold self \<le> a"
      "\<not> sample_group_delay_counter self < sample_group_delay self" "buffer self \<noteq> None"
    by (auto simp add: result_step split: if_splits option.splits)
  then have s1: "?s1 = delete_buffer self"
    using Inr assms(1) by (simp add: state_step)
  have nxt: "buffer (fst (process_sample env ?s1 nxt)) = Some (data nxt)"
    if "crosses env (threshold self) nxt"
  proof -
    from that obtain b where b: "magnitude env nxt = Inr b" "threshold self \<le> b"
      by (auto simp add: crosses_def split: sum.splits)
    then show ?thesis
      using assms(1)
      by (simp add: state_step [OF b(1)] s1 delete_buffer_fields buffer_add_sample)
  qed
  show ?thesis using c nxt by (simp add: s1 delete_buffer_fields)
qed

text \<open>
  C3, amended, on the fourth call of the scenario.
\<close>

theorem flush_clears_buffer_keeps_counter_witness:
  "group after_three
   \<and> snd (snd (process_sample example_env after_three d4)) =
       Inr (Some \<lparr>data = [0, 15, 0, 3, 4, 0], gesture_id = 2\<rparr>)
   \<and> buffer (fst (process_sample example_env after_three d4)) = None
   \<and> sample_group_delay_counter (fst (process_sample example_env after_three d4)) = 2
   \<and> crosses example_env 10 d1
   \<and> buffer (fst (process_sample example_env (fst (process_sample example_env after_three d4)) d1))
       = Some [0, 15]"
proof -
  have g: "group after_three" by (simp add: after_three_def)
  have r: "snd (snd (process_sample example_env after_three d4)) =
             Inr (Some \<lparr>data = [0, 15, 0, 3, 4, 0], gesture_id = 2\<rparr>)"
    by (simp add: run_simps after_three_def)
  show ?thesis
    using flush_clears_buffer_keeps_counter [OF g r, of d1] g r
    by (simp add: example_classes example_samples after_three_def)
qed

text \<open>
  C4. A grouped sample returned by a call carries the gesture identifier of the sample
  of that call, a sample below the threshold processed when the tolerance counter is no
  longer below the limit; its data is the buffer, which holds rows only and no gesture
  identifier of the samples accumulated.
\<close>

theorem flush_carries_trigger_gesture_id:
  assumes "group self"
    and "snd (snd (process_sample env self smp)) = Inr (Some r)"
  shows "gesture_id r = gesture_id smp
         \<and> buffer self = Some (data r)
         \<and> below env (threshold self) smp
         \<and> \<not> sample_group_delay_counter self < sample_group_delay self"
proof (cases "magnitude env smp")
  case (Inl e)
  with assms(2) show ?thesis by (simp add: process_sample_raises)
next
  case (Inr a)
  with assms show ?thesis
    by (auto simp add: result_step below_def split: if_splits option.splits)
qed

text \<open>
  C4, on the scenario: the three buffered samples have gesture identifier 1, the grouped
  sample has the gesture identifier 2 of the fourth.
\<close>

theorem flush_carries_trigger_gesture_id_witness:
  "group after_three
   \<and> snd (snd (process_sample example_env after_three d4)) =
       Inr (Some \<lparr>data = [0, 15, 0, 3, 4, 0], gesture_id = 2\<rparr>)
   \<and> gesture_id \<lparr>data = [0, 15, 0, 3, 4, 0], gesture_id = 2::nat\<rparr> = gesture_id d4
   \<and> gesture_id d1 = 1 \<and> gesture_id d2 = 1 \<and> gesture_id d3 = 1
   \<and> buffer after_three = Some (data \<lparr>data = [0, 15, 0, 3, 4, 0], gesture_id = 2::nat\<rparr>)
   \<and> below example_env (threshold after_three) d4
   \<and> \<not> sample_group_delay_counter after_three < sample_group_delay after_three"
proof -
  have g: "group after_three" by (simp add: after_three_def)
  have r: "snd (snd (process_sample example_env after_three d4)) =
             Inr (Some \<lparr>data = [0, 15, 0, 3, 4, 0], gesture_id = 2\<rparr>)"
    by (simp add: run_simps after_three_def)
  show ?thesis
    using flush_carries_trigger_gesture_id [OF g r] g r
    by (simp add: example_samples)
qed

text \<open>
  C5. With grouping disabled, in every state: a sample crossing the threshold is
  returned itself, a sample below the threshold gets nothing, and the buffer after the
  call is the buffer before it.
\<close>

theorem ungrouped_pass_or_suppress:
  assumes "\<not> group self"
  shows "(crosses env (threshold self) smp \<longrightarrow>
            snd (snd (process_sample env self smp)) = Inr (Some smp))
         \<and> (below env (threshold self) smp \<longrightarrow>
            snd (snd (process_sample env self smp)) = Inr None)
         \<and> buffer (fst (process_sample env self smp)) = buffer self"
  using assms
  by (cases "magnitude env smp")
     (simp_all add: crosses_def below_def result_step ungrouped_buffer_step)

text \<open>
  C5, on a sample of magnitude 15 and one of magnitude 3, threshold 10.
\<close>

theorem ungrouped_pass_or_suppress_witness:
  "\<not> group (GradientThresholdMiddleware 10 False 2 False :: real gtm)
   \<and> crosses example_env 10 d1
   \<and> snd (snd (process_sample example_env (GradientThresholdMiddleware 10 False 2 False) d1)) =
       Inr (Some d1)
   \<and> below example_env 10 d2
   \<and> snd (snd (process_sample example_env (GradientThresholdMiddleware 10 False 2 False) d2)) =
       Inr None
   \<and> buffer (fst (process_sample example_env (GradientThresholdMiddleware 10 False 2 False) d1)) = None
   \<and> buffer (fst (process_sample example_env (GradientThresholdMiddleware 10 False 2 False) d2)) = None"
  using ungrouped_pass_or_suppress [of "GradientThresholdMiddleware 10 False 2 False" example_env d1]
    ungrouped_pass_or_suppress [of "GradientThresholdMiddleware 10 False 2 False" example_env d2]
  by (simp add: example_classes init_fields)

text \<open>
  C6. After any number of calls on a newly constructed filter the tolerance counter is
  never negative, and it is at most the tolerance limit when that limit is not negative.
  A further call on a sample crossing the threshold sets it to 0; a further call that
  changes it otherwise adds 1 to a counter strictly below the limit.
\<close>

theorem counter_invariant:
  "(let self = state_after env (GradientThresholdMiddleware t g l v) smps;
        self' = fst (process_sample env self smp)
    in 0 \<le> sample_group_delay_counter self
       \<and> (0 \<le> l \<longrightarrow> sample_group_delay_counter self \<le> l)
       \<and> (crosses env t smp \<longrightarrow> sample_group_delay_counter self' = 0)
       \<and> (sample_group_delay_counter self' \<noteq> sample_group_delay_counter self
            \<and> \<not> crosses env t smp \<longrightarrow>
            sample_group_delay_counter self < l
            \<and> sample_group_delay_counter self' = sample_group_delay_counter self + 1))"
proof -
  let ?init = "GradientThresholdMiddleware t g l v :: 'a gtm"
  have "0 \<le> sample_group_delay_counter (state_after env ?init smps)
        \<and> sample_group_delay_counter (state_after env ?init smps) \<le> max 0 (sample_group_delay ?init)"
    by (intro counter_bounds_run) (simp_all add: init_fields)
  then show ?thesis
    by (auto simp add: Let_def counter_step config_state_after init_fields)
qed

text \<open>
  C6, after the first three calls of the scenario.
\<close>

theorem counter_invariant_witness:
  "(0::int) \<le> 2
   \<and> 0 \<le> sample_group_delay_counter
            (state_after example_env (GradientThresholdMiddleware 10 True 2 False) [d1, d2, d3])
   \<and> sample_group_delay_counter
        (state_after example_env (GradientThresholdMiddleware 10 True 2 False) [d1, d2, d3]) \<le> 2
   \<and> crosses example_env 10 d1
   \<and> sample_group_delay_counter
        (fst (process_sample example_env
               (state_after example_env (GradientThresholdMiddleware 10 True 2 False) [d1, d2, d3]) d1)) = 0"
  using counter_invariant [of example_env 10 True 2 False "[d1, d2, d3]" d1]
  by (simp add: Let_def example_classes)




text \<open>
  C8. Whatever the sample and whatever the configured delay, \<open>process_sample\<close> of a
  \<open>DelayGrouperMiddleware\<close> raises \<open>NotImplementedError\<close>, and the object is the same
  after the call as before it.
\<close>

theorem delay_grouper_always_not_implemented:
  "delay_grouper_process_sample self smp =
     (self, Inl (NotImplementedError ''DelayGrouperMiddleware is not implemented yet''))"
  by (simp add: delay_grouper_process_sample_def)

text \<open>
  C9. With grouping disabled the buffer of a newly constructed filter is absent after
  any number of calls, whatever the samples.
\<close>

theorem ungrouped_buffer_absent:
  "buffer (state_after env (GradientThresholdMiddleware t False l v) smps) = None"
proof -
  have "\<not> group self \<Longrightarrow> buffer (state_after env self smps) = buffer self" for self :: "'a gtm"
  proof (induction smps arbitrary: self)
    case Nil
    then show ?case by (simp add: state_after_Nil)
  next
    case (Cons smp rest)
    then show ?case
      by (simp add: state_after_Cons config_step ungrouped_buffer_step)
  qed
  then show ?thesis by (simp add: init_fields)
qed

text \<open>
  C10. With grouping enabled and tolerance limit 0, in every state reached from
  construction: a call on a sample below the threshold returns the grouped sample when
  there is a buffer and nothing when there is none, and leaves no buffer; a call on a
  sample crossing the threshold appends its rows to the buffer; a call on any other
  sample never extends the buffer.
\<close>

theorem zero_tolerance:
  "(let self = state_after env (GradientThresholdMiddleware t True 0 v) smps;
        self' = fst (process_sample env self smp);
        r = snd (snd (process_sample env self smp))
    in (below env t smp \<longrightarrow>
          r = (case buffer self of
                 None \<Rightarrow> Inr None
               | Some b \<Rightarrow> Inr (Some \<lparr>data = b, gesture_id = gesture_id smp\<rparr>))
          \<and> buffer self' = None)
       \<and> (crosses env t smp \<longrightarrow>
          r = Inr None
          \<and> buffer self' = Some ((case buffer self of None \<Rightarrow> [] | Some b \<Rightarrow> b) @ data smp))
       \<and> (\<not> crosses env t smp \<longrightarrow> buffer self' = None \<or> buffer self' = buffer self))"
proof -
  let ?init = "GradientThresholdMiddleware t True 0 v :: 'a gtm"
  let ?cur = "state_after env ?init smps"
  have "0 \<le> sample_group_delay_counter ?cur
        \<and> sample_group_delay_counter ?cur \<le> max 0 (sample_group_delay ?init)"
    by (intro counter_bounds_run) (simp_all add: init_fields)
  then have c0: "\<not> sample_group_delay_counter ?cur < 0" by (simp add: init_fields)
  have cfg: "group ?cur" "threshold ?cur = t" "sample_group_delay ?cur = 0"
    by (simp_all add: config_state_after init_fields)
  show ?thesis
  proof (cases "magnitude env smp")
    case (Inl e)
    then show ?thesis
      by (simp add: Let_def below_def crosses_def process_sample_raises)
  next
    case (Inr a)
    then show ?thesis
      using cfg c0
      by (auto simp add: Let_def below_def crosses_def state_step result_step
            buffer_add_sample delete_buffer_fields split: option.splits)
  qed
qed

text \<open>
  C10, on a sample of magnitude 15 followed by one of magnitude 3.
\<close>

theorem zero_tolerance_witness:
  "below example_env 10 d2
   \<and> buffer (state_after example_env (GradientThresholdMiddleware 10 True 0 False) [d1]) = Some [0, 15]
   \<and> snd (snd (process_sample example_env
                (state_after example_env (GradientThresholdMiddleware 10 True 0 False) [d1]) d2)) =
       Inr (Some \<lparr>data = [0, 15], gesture_id = 1\<rparr>)
   \<and> buffer (fst (process_sample example_env
                (state_after example_env (GradientThresholdMiddleware 10 True 0 False) [d1]) d2)) = None"
proof -
  have b: "buffer (state_after example_env (GradientThresholdMiddleware 10 True 0 False) [d1]) = Some [0, 15]"
    by (simp add: run_simps)
  show ?thesis
    using zero_tolerance [of example_env 10 False "[d1]" d2] b
    by (simp add: Let_def example_classes example_samples)
qed

end
